theory Spec2Isabelle
  imports Complex_Main
begin

section \<open>JavaScript values used by the payment relay\<close>

text \<open>
  The relay (\<^verbatim>\<open>server.js\<close>) is two Express handlers. Both read fields of a parsed JSON
  body, validate them with JavaScript's own coercions, call the payment provider once
  through \<^verbatim>\<open>fetch\<close> and translate its answer. The embedding keeps those coercions: a
  request field is any JSON value or \<^verbatim>\<open>undefined\<close>, truthiness, \<^verbatim>\<open>ToString\<close>,
  \<^verbatim>\<open>parseFloat\<close> and \<^verbatim>\<open>Number.prototype.toString\<close> are written out, and every
  exception the handler body can raise is a value that reaches the \<^verbatim>\<open>catch\<close> block.
  Strings are byte lists holding UTF-8.
\<close>

subsection \<open>Numbers\<close>

text \<open>
  A JavaScript number is an IEEE 754 binary64 value. \<open>Finite m e\<close> stands for
  \<open>m * 2 ^ e\<close>; rounding produces it with \<open>m\<close> odd (or \<open>Finite 0 0\<close>), so equal numbers
  are equal terms. The two zeros are not told apart: they are both falsy, both
  \<open>\<le> 0\<close> and both print as \<^verbatim>\<open>0\<close>, which is all the relay can observe of them.
\<close>

datatype number = NaN | Finite int int | PosInfinity | NegInfinity

definition isNaN :: "number \<Rightarrow> bool" where
  "isNaN x = (x = NaN)"

text \<open>The comparison \<^verbatim>\<open>x <= 0\<close>; it is false for \<^verbatim>\<open>NaN\<close>.\<close>

fun le_zero :: "number \<Rightarrow> bool" where
  "le_zero NaN = False"
| "le_zero (Finite m e) = (m \<le> 0)"
| "le_zero PosInfinity = False"
| "le_zero NegInfinity = True"

fun negate :: "number \<Rightarrow> number" where
  "negate NaN = NaN"
| "negate (Finite m e) = Finite (- m) e"
| "negate PosInfinity = NegInfinity"
| "negate NegInfinity = PosInfinity"

text \<open>
  Rounding a positive rational \<open>num / den\<close> to the nearest binary64 value, ties to the
  even significand: \<open>digit_count b n\<close> is the number of base-\<open>b\<close> digits of \<open>n\<close>,
  \<open>floor_log b num den\<close> is \<open>\<lfloor>log\<^sub>b (num / den)\<rfloor>\<close>, and the unit in the last place is
  \<open>2 ^ (max e (-1022) - 52)\<close>, which covers the subnormal range.
\<close>

function digit_count :: "int \<Rightarrow> int \<Rightarrow> int" where
  "digit_count b n = (if n \<le> 0 \<or> b < 2 then 0 else 1 + digit_count b (n div b))"
  by pat_completeness auto
termination
  by (relation "measure (\<lambda>(b, n). nat n)") (auto intro!: int_div_less_self)

declare digit_count.simps [simp del]

text \<open>
  A power with an integer exponent is split between numerator and denominator:
  \<open>scale_up b k n / scale_down b k d\<close> is \<open>(n / d) * b ^ k\<close>, with integers only.
\<close>

definition scale_up :: "int \<Rightarrow> int \<Rightarrow> int \<Rightarrow> int" where
  "scale_up b k n = (if 0 \<le> k then n * b ^ nat k else n)"

definition scale_down :: "int \<Rightarrow> int \<Rightarrow> int \<Rightarrow> int" where
  "scale_down b k d = (if 0 \<le> k then d else d * b ^ nat (- k))"

definition floor_log_adjust :: "int \<Rightarrow> int \<Rightarrow> int \<Rightarrow> int \<Rightarrow> int" where
  "floor_log_adjust b num den d =
     (if scale_up b d den \<le> scale_down b d num then d else d - 1)"

definition floor_log :: "int \<Rightarrow> int \<Rightarrow> int \<Rightarrow> int" where
  "floor_log b num den = floor_log_adjust b num den (digit_count b num - digit_count b den)"

definition div_half_even :: "int \<Rightarrow> int \<Rightarrow> int" where
  "div_half_even n d =
     (if 2 * (n mod d) < d then n div d
      else if d < 2 * (n mod d) then n div d + 1
      else if even (n div d) then n div d else n div d + 1)"

function normalize_double :: "int \<Rightarrow> int \<Rightarrow> number" where
  "normalize_double m e =
     (if m = 0 then Finite 0 0
      else if even m then normalize_double (m div 2) (e + 1)
      else Finite m e)"
  by pat_completeness auto
termination
  by (relation "measure (\<lambda>(m, e). nat \<bar>m\<bar>)") auto

declare normalize_double.simps [simp del]

definition overflow_check :: "int \<Rightarrow> int \<Rightarrow> number" where
  "overflow_check m q =
     (if q < 0 then normalize_double m q
      else if 2 ^ 1024 \<le> m * 2 ^ nat q then PosInfinity
      else normalize_double m q)"

definition round_at :: "int \<Rightarrow> int \<Rightarrow> int \<Rightarrow> number" where
  "round_at num den q = overflow_check (div_half_even (scale_down 2 q num) (scale_up 2 q den)) q"

definition round_ratio :: "int \<Rightarrow> int \<Rightarrow> number" where
  "round_ratio num den = round_at num den (max (floor_log 2 num den) (- 1022) - 52)"

subsection \<open>\<^verbatim>\<open>Number.prototype.toString\<close>\<close>

text \<open>
  Radix-10 \<^verbatim>\<open>Number::toString\<close> of ECMAScript: the shortest digit string \<open>s\<close> of
  \<open>k\<close> digits with \<open>s * 10 ^ (n - k)\<close> rounding back to the number, the closest one
  when several have that length, laid out plainly for \<open>-6 < n \<le> 21\<close> and with an exponent
  otherwise. Seventeen digits always identify a binary64 value, which bounds the search.
\<close>

function digits_acc :: "int \<Rightarrow> string \<Rightarrow> string" where
  "digits_acc s acc =
     (if s < 10 then (''0123456789'' ! nat s) # acc
      else digits_acc (s div 10) ((''0123456789'' ! nat (s mod 10)) # acc))"
  by pat_completeness auto
termination
  by (relation "measure (\<lambda>(s, acc). nat s)") auto

declare digits_acc.simps [simp del]

definition decimal_digits :: "int \<Rightarrow> string" where
  "decimal_digits s = digits_acc s []"

definition nearest_digits :: "int \<Rightarrow> int \<Rightarrow> int \<Rightarrow> int" where
  "nearest_digits num den j = div_half_even (scale_down 10 j num) (scale_up 10 j den)"

definition other_digits :: "int \<Rightarrow> int \<Rightarrow> int \<Rightarrow> int" where
  "other_digits num den j =
     2 * (scale_down 10 j num div scale_up 10 j den) + 1 - nearest_digits num den j"

definition denotes :: "number \<Rightarrow> int \<Rightarrow> int \<Rightarrow> int \<Rightarrow> bool" where
  "denotes x k j s =
     (if s < 10 ^ nat (k - 1) then False
      else if 10 ^ nat k < s then False
      else round_ratio (scale_up 10 j s) (scale_down 10 j 1) = x)"

function shortest :: "number \<Rightarrow> int \<Rightarrow> int \<Rightarrow> int \<Rightarrow> int \<Rightarrow> int \<times> int" where
  "shortest x num den n k =
     (if 17 \<le> k then (nearest_digits num den (n - k), k)
      else if denotes x k (n - k) (nearest_digits num den (n - k))
        then (nearest_digits num den (n - k), k)
      else if denotes x k (n - k) (other_digits num den (n - k))
        then (other_digits num den (n - k), k)
      else shortest x num den n (k + 1))"
  by pat_completeness auto
termination
  by (relation "measure (\<lambda>(x, num, den, n, k). nat (17 - k))") auto

declare shortest.simps [simp del]

definition zeros :: "int \<Rightarrow> string" where
  "zeros n = replicate (nat n) (CHR ''0'')"

definition exponent_part :: "int \<Rightarrow> string" where
  "exponent_part n =
     ''e'' @ (if 0 \<le> n - 1 then ''+'' else ''-'') @ decimal_digits \<bar>n - 1\<bar>"

definition layout :: "string \<Rightarrow> int \<Rightarrow> int \<Rightarrow> string" where
  "layout ds k n =
     (if k \<le> n \<and> n \<le> 21 then ds @ zeros (n - k)
      else if 0 < n \<and> n \<le> 21 then take (nat n) ds @ ''.'' @ drop (nat n) ds
      else if - 6 < n \<and> n \<le> 0 then ''0.'' @ zeros (- n) @ ds
      else if k = 1 then ds @ exponent_part n
      else take 1 ds @ ''.'' @ drop 1 ds @ exponent_part n)"

definition layout_digits :: "int \<times> int \<Rightarrow> int \<Rightarrow> string" where
  "layout_digits sk n =
     (if fst sk = 10 ^ nat (snd sk) then layout ''1'' 1 (n + 1)
      else layout (decimal_digits (fst sk)) (snd sk) n)"

definition positive_toString :: "int \<Rightarrow> int \<Rightarrow> string" where
  "positive_toString m e =
     layout_digits
       (shortest (normalize_double m e) (scale_up 2 e m) (scale_down 2 e 1)
          (floor_log 10 (scale_up 2 e m) (scale_down 2 e 1) + 1) 1)
       (floor_log 10 (scale_up 2 e m) (scale_down 2 e 1) + 1)"

fun number_toString :: "number \<Rightarrow> string" where
  "number_toString NaN = ''NaN''"
| "number_toString PosInfinity = ''Infinity''"
| "number_toString NegInfinity = ''-Infinity''"
| "number_toString (Finite m e) =
     (if m = 0 then ''0''
      else if m < 0 then ''-'' @ positive_toString (- m) e
      else positive_toString m e)"

subsection \<open>\<^verbatim>\<open>parseFloat\<close>\<close>

text \<open>
  \<^verbatim>\<open>parseFloat\<close> drops leading white space and line terminators, takes the longest
  prefix that is a \<^verbatim>\<open>StrDecimalLiteral\<close> (an optional sign, then \<^verbatim>\<open>Infinity\<close> or
  decimal digits with an optional fraction and exponent) and returns its value rounded
  to binary64, or \<^verbatim>\<open>NaN\<close> when there is no such prefix. Anything after the prefix is
  ignored.
\<close>

definition white_space :: "string list" where
  "white_space =
     [[CHR 0x09], [CHR 0x0A], [CHR 0x0B], [CHR 0x0C], [CHR 0x0D], [CHR 0x20],
      [CHR 0xC2, CHR 0xA0], [CHR 0xE1, CHR 0x9A, CHR 0x80],
      [CHR 0xE2, CHR 0x80, CHR 0x80], [CHR 0xE2, CHR 0x80, CHR 0x81],
      [CHR 0xE2, CHR 0x80, CHR 0x82], [CHR 0xE2, CHR 0x80, CHR 0x83],
      [CHR 0xE2, CHR 0x80, CHR 0x84], [CHR 0xE2, CHR 0x80, CHR 0x85],
      [CHR 0xE2, CHR 0x80, CHR 0x86], [CHR 0xE2, CHR 0x80, CHR 0x87],
      [CHR 0xE2, CHR 0x80, CHR 0x88], [CHR 0xE2, CHR 0x80, CHR 0x89],
      [CHR 0xE2, CHR 0x80, CHR 0x8A], [CHR 0xE2, CHR 0x80, CHR 0xA8],
      [CHR 0xE2, CHR 0x80, CHR 0xA9], [CHR 0xE2, CHR 0x80, CHR 0xAF],
      [CHR 0xE2, CHR 0x81, CHR 0x9F], [CHR 0xE3, CHR 0x80, CHR 0x80],
      [CHR 0xEF, CHR 0xBB, CHR 0xBF]]"

definition leading_white_space :: "string \<Rightarrow> nat" where
  "leading_white_space s =
     (case find (\<lambda>w. take (length w) s = w) white_space of
        None \<Rightarrow> 0
      | Some w \<Rightarrow> length w)"

function trim_start :: "string \<Rightarrow> string" where
  "trim_start s =
     (if s = [] \<or> leading_white_space s = 0 then s
      else trim_start (drop (leading_white_space s) s))"
  by pat_completeness auto
termination
  by (relation "measure length") auto

declare trim_start.simps [simp del]

definition is_digit :: "char \<Rightarrow> bool" where
  "is_digit c = (c \<in> set ''0123456789'')"

fun digits_value :: "int \<Rightarrow> string \<Rightarrow> int" where
  "digits_value acc [] = acc"
| "digits_value acc (c # cs) = digits_value (10 * acc + (int (of_char c) - 48)) cs"

definition leading_digits :: "string \<Rightarrow> int" where
  "leading_digits s = digits_value 0 (takeWhile is_digit s)"

fun signed_integer :: "string \<Rightarrow> int" where
  "signed_integer [] = 0"
| "signed_integer (c # cs) =
     (if c = CHR ''-'' then - leading_digits cs
      else if c = CHR ''+'' then leading_digits cs
      else leading_digits (c # cs))"

text \<open>
  An \<^verbatim>\<open>ExponentPart\<close> needs at least one digit; \<^verbatim>\<open>5e\<close> and \<^verbatim>\<open>5e+\<close> parse as
  \<^verbatim>\<open>5\<close>, which is what an exponent of 0 gives.
\<close>

fun exponent_value :: "string \<Rightarrow> int" where
  "exponent_value [] = 0"
| "exponent_value (c # cs) =
     (if c = CHR ''e'' \<or> c = CHR ''E'' then signed_integer cs else 0)"

fun fraction_digits :: "string \<Rightarrow> string" where
  "fraction_digits [] = []"
| "fraction_digits (c # cs) = (if c = CHR ''.'' then takeWhile is_digit cs else [])"

fun after_fraction :: "string \<Rightarrow> string" where
  "after_fraction [] = []"
| "after_fraction (c # cs) = (if c = CHR ''.'' then dropWhile is_digit cs else c # cs)"

definition round_decimal :: "int \<Rightarrow> int \<Rightarrow> number" where
  "round_decimal d x =
     (if d = 0 then Finite 0 0 else round_ratio (scale_up 10 x d) (scale_down 10 x 1))"

definition decimal_value :: "string \<Rightarrow> string \<Rightarrow> string \<Rightarrow> number" where
  "decimal_value ip fp rest =
     (if ip = [] \<and> fp = [] then NaN
      else round_decimal (digits_value 0 (ip @ fp)) (exponent_value rest - int (length fp)))"

definition unsigned_literal :: "string \<Rightarrow> number" where
  "unsigned_literal s =
     (if take 8 s = ''Infinity'' then PosInfinity
      else decimal_value (takeWhile is_digit s)
             (fraction_digits (dropWhile is_digit s))
             (after_fraction (dropWhile is_digit s)))"

fun signed_literal :: "string \<Rightarrow> number" where
  "signed_literal [] = NaN"
| "signed_literal (c # cs) =
     (if c = CHR ''-'' then negate (unsigned_literal cs)
      else if c = CHR ''+'' then unsigned_literal cs
      else unsigned_literal (c # cs))"

definition parseFloat_string :: "string \<Rightarrow> number" where
  "parseFloat_string s = signed_literal (trim_start s)"

subsection \<open>JSON values, exceptions and coercions\<close>

text \<open>
  What \<^verbatim>\<open>JSON.parse\<close> produces. An object is the list of its own properties, each
  key once. \<^verbatim>\<open>undefined\<close>, which is not a JSON value, is \<open>None\<close> of \<open>json option\<close>.
\<close>

datatype json =
    JNull
  | JBool bool
  | JNum number
  | JStr string
  | JArr "json list"
  | JObj "(string \<times> json) list"

text \<open>
  An exception carries the message that the \<^verbatim>\<open>catch\<close> block reads. \<open>TypeError\<close> is
  raised by the engine (the message texts are those of V8), \<open>Error\<close> by the handler's own
  \<^verbatim>\<open>throw\<close>, and \<open>Rejected\<close> is the reason of a rejected promise of \<^verbatim>\<open>fetch\<close>,
  \<^verbatim>\<open>response.json()\<close> or \<^verbatim>\<open>response.text()\<close>.
\<close>

datatype js_error =
    TypeError (message: string)
  | Error (message: string)
  | Rejected (message: string)

fun is_zero :: "number \<Rightarrow> bool" where
  "is_zero (Finite m e) = (m = 0)"
| "is_zero NaN = False"
| "is_zero PosInfinity = False"
| "is_zero NegInfinity = False"

text \<open>\<^verbatim>\<open>ToBoolean\<close>: what \<^verbatim>\<open>!x\<close>, \<^verbatim>\<open>x || y\<close> and \<^verbatim>\<open>x ? y : z\<close> test.\<close>

fun truthy :: "json option \<Rightarrow> bool" where
  "truthy None = False"
| "truthy (Some JNull) = False"
| "truthy (Some (JBool b)) = b"
| "truthy (Some (JNum x)) = (\<not> isNaN x \<and> \<not> is_zero x)"
| "truthy (Some (JStr s)) = (s \<noteq> [])"
| "truthy (Some (JArr xs)) = True"
| "truthy (Some (JObj kvs)) = True"

text \<open>
  \<^verbatim>\<open>ToString\<close>. An array joins its elements with commas, \<^verbatim>\<open>null\<close> elements printing
  as nothing. A parsed object inherits \<^verbatim>\<open>Object.prototype.toString\<close> unless it has an own
  property \<^verbatim>\<open>toString\<close>; that property is JSON, so not callable, and the conversion to a
  primitive then raises.
\<close>

fun ToString :: "json \<Rightarrow> js_error + string"
  and join_elements :: "json list \<Rightarrow> js_error + string" where
  "ToString JNull = Inr ''null''"
| "ToString (JBool b) = Inr (if b then ''true'' else ''false'')"
| "ToString (JNum x) = Inr (number_toString x)"
| "ToString (JStr s) = Inr s"
| "ToString (JArr xs) = join_elements xs"
| "ToString (JObj kvs) =
     (if map_of kvs ''toString'' = None then Inr ''[object Object]''
      else Inl (TypeError ''Cannot convert object to primitive value''))"
| "join_elements [] = Inr []"
| "join_elements (x # xs) =
     (case (if x = JNull then Inr [] else ToString x) of
        Inl e \<Rightarrow> Inl e
      | Inr s \<Rightarrow>
          if xs = [] then Inr s
          else (case join_elements xs of
                  Inl e \<Rightarrow> Inl e
                | Inr t \<Rightarrow> Inr (s @ '','' @ t)))"

fun ToString_value :: "json option \<Rightarrow> js_error + string" where
  "ToString_value None = Inr ''undefined''"
| "ToString_value (Some v) = ToString v"

definition parseFloat :: "json option \<Rightarrow> js_error + number" where
  "parseFloat v =
     (case ToString_value v of
        Inl e \<Rightarrow> Inl e
      | Inr s \<Rightarrow> Inr (parseFloat_string s))"

text \<open>
  Reading a property \<^verbatim>\<open>v.key\<close>. It raises on \<^verbatim>\<open>null\<close> and \<^verbatim>\<open>undefined\<close>; on an
  object it is the own property or \<^verbatim>\<open>undefined\<close>; on any other value it is
  \<^verbatim>\<open>undefined\<close>. The handlers read only \<^verbatim>\<open>isError\<close>, \<^verbatim>\<open>message\<close>, \<^verbatim>\<open>data\<close>,
  \<^verbatim>\<open>status\<close> and \<^verbatim>\<open>transaction_id\<close>, none of which a built-in prototype defines.
\<close>

definition cannot_read :: "string \<Rightarrow> string \<Rightarrow> js_error" where
  "cannot_read base key =
     TypeError (''Cannot read properties of '' @ base @ '' (reading '' @ [CHR 0x27] @ key
                @ [CHR 0x27] @ '')'')"

fun get_property :: "json option \<Rightarrow> string \<Rightarrow> js_error + json option" where
  "get_property None key = Inl (cannot_read ''undefined'' key)"
| "get_property (Some JNull) key = Inl (cannot_read ''null'' key)"
| "get_property (Some (JObj kvs)) key = Inr (map_of kvs key)"
| "get_property (Some v) key = Inr None"

text \<open>Optional chaining \<^verbatim>\<open>v?.key\<close>: \<^verbatim>\<open>undefined\<close> when \<open>v\<close> is nullish.\<close>

fun get_optional :: "json option \<Rightarrow> string \<Rightarrow> json option" where
  "get_optional (Some (JObj kvs)) key = map_of kvs key"
| "get_optional v key = None"

text \<open>\<^verbatim>\<open>String.prototype.includes\<close>.\<close>

fun string_includes :: "string \<Rightarrow> string \<Rightarrow> bool" where
  "string_includes [] sub = (sub = [])"
| "string_includes (c # cs) sub =
     (take (length sub) (c # cs) = sub \<or> string_includes cs sub)"

text \<open>The test of \<^verbatim>\<open>/^\d{10}$/\<close>: exactly ten characters, each an ASCII digit.\<close>

definition ten_digits :: "string \<Rightarrow> bool" where
  "ten_digits s = (length s = 10 \<and> list_all is_digit s)"

subsection \<open>\<^verbatim>\<open>URLSearchParams\<close>\<close>

text \<open>
  \<^verbatim>\<open>formData.toString()\<close> is the \<^verbatim>\<open>application/x-www-form-urlencoded\<close> serialisation:
  letters, digits and \<^verbatim>\<open>*-._\<close> stay, a space becomes \<^verbatim>\<open>+\<close>, every other byte becomes
  \<^verbatim>\<open>%XX\<close>.
\<close>

definition unreserved :: "char \<Rightarrow> bool" where
  "unreserved c =
     (c \<in> set ''abcdefghijklmnopqrstuvwxyzABCDEFGHIJKLMNOPQRSTUVWXYZ0123456789*-._'')"

definition hex_digit :: "nat \<Rightarrow> char" where
  "hex_digit n = ''0123456789ABCDEF'' ! n"

definition encode_byte :: "char \<Rightarrow> string" where
  "encode_byte c =
     (if c = CHR '' '' then ''+''
      else if unreserved c then [c]
      else [CHR ''%'', hex_digit (of_char c div 16), hex_digit (of_char c mod 16)])"

definition urlencode :: "string \<Rightarrow> string" where
  "urlencode s = concat (map encode_byte s)"

fun serialize :: "(string \<times> string) list \<Rightarrow> string" where
  "serialize [] = []"
| "serialize [(k, v)] = urlencode k @ ''='' @ urlencode v"
| "serialize ((k, v) # kvs) = urlencode k @ ''='' @ urlencode v @ ''&'' @ serialize kvs"

section \<open>The relay\<close>

subsection \<open>Configuration, provider and replies\<close>

text \<open>
  \<^verbatim>\<open>process.env\<close>: a variable is a string or unset. \<^verbatim>\<open>!MONEYUNIFY_AUTH_ID\<close> holds when
  the variable is unset or empty.
\<close>

record process_env =
  MONEYUNIFY_AUTH_ID :: "string option"
  NODE_ENV :: "string option"

definition MONEYUNIFY_API_URL :: string where
  "MONEYUNIFY_API_URL = ''https://api.moneyunify.one''"

definition auth_id_missing :: "process_env \<Rightarrow> bool" where
  "auth_id_missing env =
     (case MONEYUNIFY_AUTH_ID env of None \<Rightarrow> True | Some a \<Rightarrow> a = [])"

text \<open>
  The value appended to the form as \<^verbatim>\<open>auth_id\<close>. \<^verbatim>\<open>URLSearchParams\<close> prints an unset
  variable as \<^verbatim>\<open>undefined\<close>; both handlers return before that can happen.
\<close>

definition auth_id :: "process_env \<Rightarrow> string" where
  "auth_id env = (case MONEYUNIFY_AUTH_ID env of None \<Rightarrow> ''undefined'' | Some a \<Rightarrow> a)"

text \<open>
  One call of \<^verbatim>\<open>fetch\<close>. The provider is a function from the request sent to what
  comes back: the promise rejects (a network failure), or it resolves to a response with a
  \<^verbatim>\<open>content-type\<close> header (or none), a status, and the outcomes of \<^verbatim>\<open>response.json()\<close>
  and \<^verbatim>\<open>response.text()\<close>, each of which may reject. A handler returns its reply
  together with the list of requests it sent.
\<close>

record outbound_request =
  url :: string
  http_method :: string
  headers :: "(string \<times> string) list"
  payload :: string

record provider_response =
  content_type :: "string option"
  http_status :: nat
  json_result :: "js_error + json"
  text_result :: "js_error + string"

datatype fetch_result = Rejects js_error | Resolves provider_response

type_synonym provider = "outbound_request \<Rightarrow> fetch_result"

text \<open>\<^verbatim>\<open>response.ok\<close>: the status is in the range 200 to 299.\<close>

definition response_ok :: "provider_response \<Rightarrow> bool" where
  "response_ok r = (200 \<le> http_status r \<and> http_status r \<le> 299)"

text \<open>
  \<^verbatim>\<open>res.status(c).json(obj)\<close>: the status and the object handed to Express, whose
  properties may be \<^verbatim>\<open>undefined\<close>.
\<close>

record reply =
  status :: nat
  sent :: "(string \<times> json option) list"

definition failure :: "nat \<Rightarrow> string \<Rightarrow> reply" where
  "failure code msg =
     \<lparr>status = code,
      sent = [(''isError'', Some (JBool True)), (''message'', Some (JStr msg))]\<rparr>"

definition success :: "json option \<Rightarrow> json option \<Rightarrow> reply" where
  "success msg d =
     \<lparr>status = 200,
      sent = [(''isError'', Some (JBool False)), (''message'', msg), (''data'', d)]\<rparr>"

text \<open>
  The \<^verbatim>\<open>catch\<close> block, the same in both handlers: the exception's message is echoed
  only when \<^verbatim>\<open>NODE_ENV\<close> is \<^verbatim>\<open>development\<close>.
\<close>

definition catch_block :: "process_env \<Rightarrow> js_error \<Rightarrow> reply" where
  "catch_block env error =
     \<lparr>status = 500,
      sent = [(''isError'', Some (JBool True)),
              (''message'', Some (JStr ''Internal server error'')),
              (''error'', Some (JStr (if NODE_ENV env = Some ''development''
                                      then message error else ''An error occurred'')))]\<rparr>"

fun respond :: "process_env \<Rightarrow> (js_error + reply) \<times> outbound_request list
                 \<Rightarrow> reply \<times> outbound_request list" where
  "respond env (Inl error, calls) = (catch_block env error, calls)"
| "respond env (Inr r, calls) = (r, calls)"

text \<open>
  Reading the provider's answer, the same code in both handlers: the body is parsed when
  the \<^verbatim>\<open>content-type\<close> header is present and includes \<^verbatim>\<open>application/json\<close>; otherwise
  the text is read and an \<^verbatim>\<open>Error\<close> is thrown.
\<close>

definition is_json :: "string option \<Rightarrow> bool" where
  "is_json contentType =
     (case contentType of
        None \<Rightarrow> False
      | Some ct \<Rightarrow> ct \<noteq> [] \<and> string_includes ct ''application/json'')"

definition read_body :: "provider_response \<Rightarrow> js_error + json" where
  "read_body response =
     (if is_json (content_type response) then json_result response
      else (case text_result response of
              Inl e \<Rightarrow> Inl e
            | Inr text \<Rightarrow> Inl (Error ''Invalid response from payment provider'')))"

definition form_headers :: "(string \<times> string) list" where
  "form_headers =
     [(''Content-Type'', ''application/x-www-form-urlencoded''),
      (''Accept'', ''application/json'')]"

subsection \<open>\<^verbatim>\<open>POST /create-mobile-money-payment\<close>\<close>

text \<open>
  The logged, masked payer: \<^verbatim>\<open>from_payer.substring\<close> is called whenever
  \<^verbatim>\<open>from_payer\<close> is truthy, before any validation, and only a string has that method.
\<close>

fun masked_payer :: "json option \<Rightarrow> js_error + string" where
  "masked_payer (Some (JStr s)) =
     (if s = [] then Inr ''N/A'' else Inr (take 3 s @ ''****'' @ drop 7 s))"
| "masked_payer v =
     (if truthy v then Inl (TypeError ''from_payer.substring is not a function'')
      else Inr ''N/A'')"

definition create_formData :: "string \<Rightarrow> number \<Rightarrow> string \<Rightarrow> (string \<times> string) list" where
  "create_formData from_payer parsedAmount auth =
     [(''from_payer'', from_payer),
      (''amount'', number_toString parsedAmount),
      (''auth_id'', auth),
      (''webhook_url'', [])]"

definition create_request :: "string \<Rightarrow> number \<Rightarrow> string \<Rightarrow> outbound_request" where
  "create_request from_payer parsedAmount auth =
     \<lparr>url = MONEYUNIFY_API_URL @ ''/payments/request'',
      http_method = ''POST'',
      headers = form_headers,
      payload = serialize (create_formData from_payer parsedAmount auth)\<rparr>"

text \<open>Lines 127 to 142: from the parsed provider body to the reply.\<close>

definition create_translate :: "provider_response \<Rightarrow> json \<Rightarrow> js_error + reply" where
  "create_translate response data =
     (case get_property (Some data) ''isError'' of
        Inl e \<Rightarrow> Inl e
      | Inr isError \<Rightarrow>
          if truthy isError \<or> \<not> response_ok response then
            (case get_property (Some data) ''message'' of
               Inl e \<Rightarrow> Inl e
             | Inr msg \<Rightarrow>
                 Inr \<lparr>status = 400,
                      sent = [(''isError'', Some (JBool True)),
                              (''message'', if truthy msg then msg
                                            else Some (JStr ''Payment initiation failed''))]\<rparr>)
          else
            (case get_property (Some data) ''data'' of
               Inl e \<Rightarrow> Inl e
             | Inr d \<Rightarrow>
                 (case get_property d ''transaction_id'' of
                    Inl e \<Rightarrow> Inl e
                  | Inr logged \<Rightarrow>
                      (case get_property (Some data) ''message'' of
                         Inl e \<Rightarrow> Inl e
                       | Inr msg \<Rightarrow> Inr (success msg d)))))"

definition create_call :: "provider \<Rightarrow> outbound_request \<Rightarrow> js_error + reply" where
  "create_call fetch request =
     (case fetch request of
        Rejects e \<Rightarrow> Inl e
      | Resolves response \<Rightarrow>
          (case read_body response of
             Inl e \<Rightarrow> Inl e
           | Inr data \<Rightarrow> create_translate response data))"

text \<open>The body of the \<^verbatim>\<open>try\<close> block: a reply or an exception, and the requests sent.\<close>

definition create_try ::
  "process_env \<Rightarrow> provider \<Rightarrow> (string \<times> json) list
     \<Rightarrow> (js_error + reply) \<times> outbound_request list" where
  "create_try env fetch req_body =
     (let from_payer = map_of req_body ''from_payer'';
          amount = map_of req_body ''amount''
      in case masked_payer from_payer of
           Inl e \<Rightarrow> (Inl e, [])
         | Inr logged \<Rightarrow>
             if \<not> (truthy from_payer \<and> truthy amount) then
               (Inr (failure 400 ''Missing required fields: from_payer or amount''), [])
             else
               (case ToString_value from_payer of
                  Inl e \<Rightarrow> (Inl e, [])
                | Inr payer \<Rightarrow>
                    if \<not> ten_digits payer then
                      (Inr (failure 400
                         ''Invalid phone number format. Must be 10 digits (e.g., 0971234567)''), [])
                    else
                      (case parseFloat amount of
                         Inl e \<Rightarrow> (Inl e, [])
                       | Inr parsedAmount \<Rightarrow>
                           if isNaN parsedAmount \<or> le_zero parsedAmount then
                             (Inr (failure 400 ''Invalid amount. Must be a positive number.''), [])
                           else if auth_id_missing env then
                             (Inr (failure 500
                                ''Payment service not configured. Please contact support.''), [])
                           else
                             (create_call fetch (create_request payer parsedAmount (auth_id env)),
                              [create_request payer parsedAmount (auth_id env)]))))"

definition create_mobile_money_payment ::
  "process_env \<Rightarrow> provider \<Rightarrow> (string \<times> json) list \<Rightarrow> reply \<times> outbound_request list" where
  "create_mobile_money_payment env fetch req_body = respond env (create_try env fetch req_body)"

subsection \<open>\<^verbatim>\<open>POST /verify-mobile-money-payment\<close>\<close>

definition verify_formData :: "string \<Rightarrow> string \<Rightarrow> (string \<times> string) list" where
  "verify_formData auth transaction_id =
     [(''auth_id'', auth), (''transaction_id'', transaction_id)]"

definition verify_request :: "string \<Rightarrow> string \<Rightarrow> outbound_request" where
  "verify_request auth transaction_id =
     \<lparr>url = MONEYUNIFY_API_URL @ ''/payments/verify'',
      http_method = ''POST'',
      headers = form_headers,
      payload = serialize (verify_formData auth transaction_id)\<rparr>"

text \<open>
  Lines 210 to 220. The log reads \<^verbatim>\<open>data.data?.status\<close>: the optional chain guards
  \<^verbatim>\<open>data.data\<close>, not \<^verbatim>\<open>data\<close> itself.
\<close>

definition logged_status :: "json \<Rightarrow> js_error + json option" where
  "logged_status data =
     (case get_property (Some data) ''data'' of
        Inl e \<Rightarrow> Inl e
      | Inr d \<Rightarrow>
          Inr (if truthy (get_optional d ''status'') then get_optional d ''status''
               else Some (JStr ''unknown'')))"

definition verify_translate :: "json \<Rightarrow> js_error + reply" where
  "verify_translate data =
     (case logged_status data of
        Inl e \<Rightarrow> Inl e
      | Inr logged \<Rightarrow>
          (case get_property (Some data) ''message'' of
             Inl e \<Rightarrow> Inl e
           | Inr msg \<Rightarrow>
               (case get_property (Some data) ''data'' of
                  Inl e \<Rightarrow> Inl e
                | Inr d \<Rightarrow> Inr (success msg d))))"

definition verify_call :: "provider \<Rightarrow> outbound_request \<Rightarrow> js_error + reply" where
  "verify_call fetch request =
     (case fetch request of
        Rejects e \<Rightarrow> Inl e
      | Resolves response \<Rightarrow>
          (case read_body response of
             Inl e \<Rightarrow> Inl e
           | Inr data \<Rightarrow> verify_translate data))"

definition verify_try ::
  "process_env \<Rightarrow> provider \<Rightarrow> (string \<times> json) list
     \<Rightarrow> (js_error + reply) \<times> outbound_request list" where
  "verify_try env fetch req_body =
     (let transaction_id = map_of req_body ''transaction_id''
      in if \<not> truthy transaction_id then
           (Inr (failure 400 ''Missing required field: transaction_id''), [])
         else if auth_id_missing env then
           (Inr (failure 500 ''Payment service not configured. Please contact support.''), [])
         else
           (case ToString_value transaction_id of
              Inl e \<Rightarrow> (Inl e, [])
            | Inr tid \<Rightarrow>
                (verify_call fetch (verify_request (auth_id env) tid),
                 [verify_request (auth_id env) tid])))"

definition verify_mobile_money_payment ::
  "process_env \<Rightarrow> provider \<Rightarrow> (string \<times> json) list \<Rightarrow> reply \<times> outbound_request list" where
  "verify_mobile_money_payment env fetch req_body = respond env (verify_try env fetch req_body)"

subsection \<open>Requests and providers of the specification's scenarios\<close>

text \<open>
  The scenarios of the specification: payer \<^verbatim>\<open>0971234567\<close>, transaction \<^verbatim>\<open>T1\<close>, a
  configured and an unconfigured deployment, a provider that answers with a JSON body, one
  that answers with an HTML page, and one that cannot be reached.
\<close>

definition deployment :: "string option \<Rightarrow> string \<Rightarrow> process_env" where
  "deployment secret node_env = \<lparr>MONEYUNIFY_AUTH_ID = secret, NODE_ENV = Some node_env\<rparr>"

definition payment_body :: "json \<Rightarrow> json \<Rightarrow> (string \<times> json) list" where
  "payment_body from_payer amount = [(''from_payer'', from_payer), (''amount'', amount)]"

definition verification_body :: "json \<Rightarrow> (string \<times> json) list" where
  "verification_body transaction_id = [(''transaction_id'', transaction_id)]"

definition json_provider :: "nat \<Rightarrow> json \<Rightarrow> provider" where
  "json_provider code parsed request =
     Resolves \<lparr>content_type = Some ''application/json; charset=utf-8'',
               http_status = code,
               json_result = Inr parsed,
               text_result = Inr []\<rparr>"

definition html_provider :: provider where
  "html_provider request =
     Resolves \<lparr>content_type = Some ''text/html'',
               http_status = 502,
               json_result = Inl (Rejected ''Unexpected token < in JSON at position 0''),
               text_result = Inr ''<html>Bad Gateway</html>''\<rparr>"

definition unreachable_provider :: "string \<Rightarrow> provider" where
  "unreachable_provider reason request = Rejects (Rejected reason)"

section \<open>Properties\<close>

subsection \<open>Evaluation on concrete inputs\<close>

lemmas number_eval =
  round_ratio_def round_at_def overflow_check_def div_half_even_def floor_log_def
  floor_log_adjust_def scale_up_def scale_down_def digit_count.simps normalize_double.simps
  positive_toString_def layout_digits_def layout_def exponent_part_def zeros_def
  shortest.simps denotes_def other_digits_def nearest_digits_def decimal_digits_def
  digits_acc.simps

lemmas parse_eval =
  parseFloat_string_def trim_start.simps leading_white_space_def white_space_def
  unsigned_literal_def decimal_value_def round_decimal_def leading_digits_def is_digit_def

lemmas form_eval =
  create_request_def create_formData_def verify_request_def verify_formData_def
  MONEYUNIFY_API_URL_def form_headers_def urlencode_def encode_byte_def unreserved_def
  hex_digit_def

lemmas scenario_eval =
  deployment_def payment_body_def verification_body_def json_provider_def html_provider_def
  unreachable_provider_def auth_id_def auth_id_missing_def ten_digits_def is_digit_def
  is_json_def response_ok_def

lemma parse_undefined: "parseFloat_string ''undefined'' = NaN"
  by (simp add: parse_eval)

lemma parse_null: "parseFloat_string ''null'' = NaN"
  by (simp add: parse_eval)

lemma parse_false: "parseFloat_string ''false'' = NaN"
  by (simp add: parse_eval)

lemma parse_NaN: "parseFloat_string ''NaN'' = NaN"
  by (simp add: parse_eval)

lemma parse_empty: "parseFloat_string [] = NaN"
  by (simp add: parse_eval)

lemma parse_zero: "parseFloat_string ''0'' = Finite 0 0"
  by (simp add: parse_eval)

lemma parse_fifty: "parseFloat_string ''50.00'' = Finite 25 1"
  by (simp add: parse_eval number_eval)

lemma parse_half: "parseFloat_string ''0.5'' = Finite 1 (- 1)"
  by (simp add: parse_eval number_eval)

lemma parse_minus_five: "parseFloat_string ''-5'' = Finite (- 5) 0"
  by (simp add: parse_eval number_eval)

lemma parse_abc: "parseFloat_string ''abc'' = NaN"
  by (simp add: parse_eval)

lemma show_fifty: "positive_toString 25 1 = ''50''"
  by (simp add: number_eval)

lemma show_half: "positive_toString 1 (- 1) = ''0.5''"
  by (simp add: number_eval)

subsection \<open>The validation prefix\<close>

text \<open>
  A value that parses to a positive number is truthy, so the check for missing fields
  never rejects an amount that the amount check would accept.
\<close>

lemma parse_positive_truthy:
  assumes "parseFloat v = Inr n" and "\<not> isNaN n" and "\<not> le_zero n"
  shows "truthy v"
proof (rule ccontr)
  assume falsy: "\<not> truthy v"
  have "isNaN n \<or> le_zero n"
  proof (cases v)
    case None
    with assms(1) show ?thesis
      by (auto simp: parseFloat_def parse_undefined isNaN_def)
  next
    case (Some j)
    show ?thesis
    proof (cases j)
      case JNull
      with Some assms(1) show ?thesis
        by (auto simp: parseFloat_def parse_null isNaN_def)
    next
      case (JBool b)
      with Some assms(1) falsy show ?thesis
        by (auto simp: parseFloat_def parse_false isNaN_def)
    next
      case (JNum x)
      with Some assms(1) falsy show ?thesis
        by (cases x) (auto simp: parseFloat_def parse_NaN parse_zero isNaN_def)
    next
      case (JStr s)
      with Some assms(1) falsy show ?thesis
        by (auto simp: parseFloat_def parse_empty isNaN_def)
    next
      case (JArr xs)
      with Some falsy show ?thesis by simp
    next
      case (JObj kvs)
      with Some falsy show ?thesis by simp
    qed
  qed
  with assms(2,3) show False by simp
qed

lemma ten_digits_nonempty: "ten_digits s \<Longrightarrow> s \<noteq> []"
  by (auto simp: ten_digits_def)

lemma get_property_not_null:
  "v \<noteq> JNull \<Longrightarrow> get_property (Some v) key = Inr (get_optional (Some v) key)"
  by (cases v) simp_all

text \<open>
  A request that passes the three validation checks either stops at the configuration
  check or sends exactly one request to the provider.
\<close>

lemma create_try_valid:
  assumes "map_of req_body ''from_payer'' = Some (JStr payer)"
    and "ten_digits payer"
    and "parseFloat (map_of req_body ''amount'') = Inr parsedAmount"
    and "\<not> isNaN parsedAmount"
    and "\<not> le_zero parsedAmount"
  shows "create_try env fetch req_body =
           (if auth_id_missing env then
              (Inr (failure 500 ''Payment service not configured. Please contact support.''), [])
            else
              (create_call fetch (create_request payer parsedAmount (auth_id env)),
               [create_request payer parsedAmount (auth_id env)]))"
proof -
  have "truthy (map_of req_body ''amount'')"
    using assms(3,4,5) by (rule parse_positive_truthy)
  moreover have "payer \<noteq> []"
    using assms(2) by (rule ten_digits_nonempty)
  ultimately show ?thesis
    using assms by (simp add: create_try_def)
qed

lemma verify_try_present:
  assumes "truthy (map_of req_body ''transaction_id'')"
    and "ToString_value (map_of req_body ''transaction_id'') = Inr tid"
  shows "verify_try env fetch req_body =
           (if auth_id_missing env then
              (Inr (failure 500 ''Payment service not configured. Please contact support.''), [])
            else
              (verify_call fetch (verify_request (auth_id env) tid),
               [verify_request (auth_id env) tid]))"
  using assms by (simp add: verify_try_def)

section \<open>The claims\<close>

text \<open>
  C7, as the specification states it: every valid payment request answered by the
  provider with a success JSON response (no error flag, a success status) gets HTTP 200
  with the provider's data passed through. A success response whose JSON body is
  \<^verbatim>\<open>null\<close>, and one whose \<^verbatim>\<open>data\<close> member is \<^verbatim>\<open>null\<close>, refute it: reading
  \<^verbatim>\<open>data.isError\<close>, respectively \<^verbatim>\<open>data.data.transaction_id\<close>, raises and the reply
  is the internal-error envelope with HTTP 500.
\<close>

theorem C7_no_data_counterexample:
  "create_mobile_money_payment (deployment (Some ''secret'') ''production'')
     (json_provider 200 JNull) (payment_body (JStr ''0971234567'') (JStr ''50.00'')) =
   (\<lparr>status = 500,
     sent = [(''isError'', Some (JBool True)),
             (''message'', Some (JStr ''Internal server error'')),
             (''error'', Some (JStr ''An error occurred''))]\<rparr>,
    [create_request ''0971234567'' (Finite 25 1) ''secret'']) \<and>
   create_mobile_money_payment (deployment (Some ''secret'') ''production'')
     (json_provider 200
        (JObj [(''isError'', JBool False), (''message'', JStr ''ok''), (''data'', JNull)]))
     (payment_body (JStr ''0971234567'') (JStr ''50.00'')) =
   (\<lparr>status = 500,
     sent = [(''isError'', Some (JBool True)),
             (''message'', Some (JStr ''Internal server error'')),
             (''error'', Some (JStr ''An error occurred''))]\<rparr>,
    [create_request ''0971234567'' (Finite 25 1) ''secret''])"
  by (simp add: scenario_eval create_mobile_money_payment_def create_try_def create_call_def
      read_body_def create_translate_def parseFloat_def parse_fifty isNaN_def catch_block_def)

text \<open>
  C7, amended. A valid payment request (a ten-digit \<^verbatim>\<open>from_payer\<close>, a positive numeric
  \<^verbatim>\<open>amount\<close>, the secret set) for which the provider answers with a success JSON
  response (a JSON object with no error flag, a success status) whose \<^verbatim>\<open>data\<close> member
  is present and not \<^verbatim>\<open>null\<close> gets HTTP 200 with \<^verbatim>\<open>{isError: false, message, data}\<close>,
  the provider's message and data unchanged.
\<close>

theorem C7_success_passthrough:
  assumes "map_of req_body ''from_payer'' = Some (JStr payer)"
    and "ten_digits payer"
    and "parseFloat (map_of req_body ''amount'') = Inr parsedAmount"
    and "\<not> isNaN parsedAmount"
    and "\<not> le_zero parsedAmount"
    and "\<not> auth_id_missing env"
    and "fetch (create_request payer parsedAmount (auth_id env)) = Resolves response"
    and "is_json (content_type response)"
    and "json_result response = Inr (JObj props)"
    and "\<not> truthy (map_of props ''isError'')"
    and "response_ok response"
    and "map_of props ''data'' = Some d"
    and "d \<noteq> JNull"
  shows "create_mobile_money_payment env fetch req_body =
           (\<lparr>status = 200,
             sent = [(''isError'', Some (JBool False)),
                     (''message'', map_of props ''message''),
                     (''data'', Some d)]\<rparr>,
            [create_request payer parsedAmount (auth_id env)])"
proof -
  have "create_translate response (JObj props) = Inr (success (map_of props ''message'') (Some d))"
    using assms(10-13) by (simp add: create_translate_def get_property_not_null)
  then have "create_call fetch (create_request payer parsedAmount (auth_id env)) =
               Inr (success (map_of props ''message'') (Some d))"
    using assms(7-9) by (simp add: create_call_def read_body_def)
  then show ?thesis
    using assms(6) create_try_valid [OF assms(1-5), of env fetch]
    by (simp add: create_mobile_money_payment_def success_def)
qed

theorem C7_success_passthrough_witness:
  "create_mobile_money_payment (deployment (Some ''secret'') ''production'')
     (json_provider 200
        (JObj [(''isError'', JBool False), (''message'', JStr ''ok''),
               (''data'', JObj [(''transaction_id'', JStr ''T1'')])]))
     (payment_body (JStr ''0971234567'') (JStr ''50.00'')) =
   (\<lparr>status = 200,
     sent = [(''isError'', Some (JBool False)),
             (''message'', Some (JStr ''ok'')),
             (''data'', Some (JObj [(''transaction_id'', JStr ''T1'')]))]\<rparr>,
    [create_request ''0971234567'' (Finite 25 1) ''secret''])"
  using C7_success_passthrough
    [of "payment_body (JStr ''0971234567'') (JStr ''50.00'')" "''0971234567''" "Finite 25 1"
        "deployment (Some ''secret'') ''production''"
        "json_provider 200
           (JObj [(''isError'', JBool False), (''message'', JStr ''ok''),
                  (''data'', JObj [(''transaction_id'', JStr ''T1'')])])"
        "\<lparr>content_type = Some ''application/json; charset=utf-8'', http_status = 200,
          json_result = Inr (JObj [(''isError'', JBool False), (''message'', JStr ''ok''),
                                   (''data'', JObj [(''transaction_id'', JStr ''T1'')])]),
          text_result = Inr []\<rparr>"
        "[(''isError'', JBool False), (''message'', JStr ''ok''),
          (''data'', JObj [(''transaction_id'', JStr ''T1'')])]"
        "JObj [(''transaction_id'', JStr ''T1'')]"]
  by (simp add: scenario_eval parseFloat_def parse_fifty isNaN_def)

text \<open>
  C10. A valid payment request for which the provider answers with a success JSON
  response (no error flag, a success status) whose body lacks a data object (the
  \<^verbatim>\<open>data\<close> member is absent or \<^verbatim>\<open>null\<close>) gets the internal-error envelope
  \<^verbatim>\<open>{isError: true, message: 'Internal server error'}\<close> with HTTP 500, because the handler
  reads \<^verbatim>\<open>data.data.transaction_id\<close> before it responds.
\<close>

theorem C10_missing_data_internal_error:
  assumes "map_of req_body ''from_payer'' = Some (JStr payer)"
    and "ten_digits payer"
    and "parseFloat (map_of req_body ''amount'') = Inr parsedAmount"
    and "\<not> isNaN parsedAmount"
    and "\<not> le_zero parsedAmount"
    and "\<not> auth_id_missing env"
    and "fetch (create_request payer parsedAmount (auth_id env)) = Resolves response"
    and "is_json (content_type response)"
    and "json_result response = Inr data"
    and "\<not> truthy (get_optional (Some data) ''isError'')"
    and "response_ok response"
    and "get_optional (Some data) ''data'' = None \<or> get_optional (Some data) ''data'' = Some JNull"
  shows "create_mobile_money_payment env fetch req_body =
           (\<lparr>status = 500,
             sent = [(''isError'', Some (JBool True)),
                     (''message'', Some (JStr ''Internal server error'')),
                     (''error'', Some (JStr
                        (if NODE_ENV env = Some ''development'' then
                           message
                             (if data = JNull then cannot_read ''null'' ''isError''
                              else if get_optional (Some data) ''data'' = None
                                then cannot_read ''undefined'' ''transaction_id''
                              else cannot_read ''null'' ''transaction_id'')
                         else ''An error occurred'')))]\<rparr>,
            [create_request payer parsedAmount (auth_id env)])"
proof -
  let ?err = "if data = JNull then cannot_read ''null'' ''isError''
              else if get_optional (Some data) ''data'' = None
                then cannot_read ''undefined'' ''transaction_id''
              else cannot_read ''null'' ''transaction_id''"
  have "create_translate response data = Inl ?err"
  proof (cases "data = JNull")
    case True
    then show ?thesis by (simp add: create_translate_def)
  next
    case False
    then show ?thesis
      using assms(10-12) by (auto simp: create_translate_def get_property_not_null)
  qed
  then have "create_call fetch (create_request payer parsedAmount (auth_id env)) = Inl ?err"
    using assms(7-9) by (simp add: create_call_def read_body_def)
  then have "create_mobile_money_payment env fetch req_body =
               (catch_block env ?err, [create_request payer parsedAmount (auth_id env)])"
    using assms(6) create_try_valid [OF assms(1-5), of env fetch]
    by (simp add: create_mobile_money_payment_def)
  then show ?thesis
    by (simp add: catch_block_def)
qed

theorem C10_missing_data_internal_error_witness:
  "create_mobile_money_payment (deployment (Some ''secret'') ''production'')
     (json_provider 200 (JObj [(''isError'', JBool False), (''message'', JStr ''ok'')]))
     (payment_body (JStr ''0971234567'') (JStr ''50.00'')) =
   (\<lparr>status = 500,
     sent = [(''isError'', Some (JBool True)),
             (''message'', Some (JStr ''Internal server error'')),
             (''error'', Some (JStr ''An error occurred''))]\<rparr>,
    [create_request ''0971234567'' (Finite 25 1) ''secret''])"
  using C10_missing_data_internal_error
    [of "payment_body (JStr ''0971234567'') (JStr ''50.00'')" "''0971234567''" "Finite 25 1"
        "deployment (Some ''secret'') ''production''"
        "json_provider 200 (JObj [(''isError'', JBool False), (''message'', JStr ''ok'')])"
        "\<lparr>content_type = Some ''application/json; charset=utf-8'', http_status = 200,
          json_result = Inr (JObj [(''isError'', JBool False), (''message'', JStr ''ok'')]),
          text_result = Inr []\<rparr>"
        "JObj [(''isError'', JBool False), (''message'', JStr ''ok'')]"]
  by (simp add: scenario_eval parseFloat_def parse_fifty isNaN_def)

text \<open>
  C5. For a request whose input passes validation, when the provider secret is unset
  both operations return the configuration-error envelope \<^verbatim>\<open>{isError: true, message}\<close>
  with HTTP 500 and send nothing to the provider.
\<close>

theorem C5_unset_secret_config_error:
  assumes "map_of req_body ''from_payer'' = Some (JStr payer)"
    and "ten_digits payer"
    and "parseFloat (map_of req_body ''amount'') = Inr parsedAmount"
    and "\<not> isNaN parsedAmount"
    and "\<not> le_zero parsedAmount"
    and "truthy (map_of verify_body ''transaction_id'')"
    and "auth_id_missing env"
  shows "create_mobile_money_payment env fetch req_body =
           (\<lparr>status = 500,
             sent = [(''isError'', Some (JBool True)),
                     (''message'', Some (JStr
                        ''Payment service not configured. Please contact support.''))]\<rparr>,
            []) \<and>
         verify_mobile_money_payment env fetch verify_body =
           (\<lparr>status = 500,
             sent = [(''isError'', Some (JBool True)),
                     (''message'', Some (JStr
                        ''Payment service not configured. Please contact support.''))]\<rparr>,
            [])"
proof
  show "create_mobile_money_payment env fetch req_body =
          (\<lparr>status = 500,
            sent = [(''isError'', Some (JBool True)),
                    (''message'', Some (JStr
                       ''Payment service not configured. Please contact support.''))]\<rparr>,
           [])"
    using assms(7) create_try_valid [OF assms(1-5), of env fetch]
    by (simp add: create_mobile_money_payment_def failure_def)
  show "verify_mobile_money_payment env fetch verify_body =
          (\<lparr>status = 500,
            sent = [(''isError'', Some (JBool True)),
                    (''message'', Some (JStr
                       ''Payment service not configured. Please contact support.''))]\<rparr>,
           [])"
    using assms(6,7)
    by (simp add: verify_mobile_money_payment_def verify_try_def failure_def)
qed

theorem C5_unset_secret_config_error_witness:
  "create_mobile_money_payment (deployment None ''production'')
     (json_provider 200 JNull) (payment_body (JStr ''0971234567'') (JStr ''50.00'')) =
   (\<lparr>status = 500,
     sent = [(''isError'', Some (JBool True)),
             (''message'', Some (JStr
                ''Payment service not configured. Please contact support.''))]\<rparr>,
    []) \<and>
   verify_mobile_money_payment (deployment None ''production'')
     (json_provider 200 JNull) (verification_body (JStr ''T1'')) =
   (\<lparr>status = 500,
     sent = [(''isError'', Some (JBool True)),
             (''message'', Some (JStr
                ''Payment service not configured. Please contact support.''))]\<rparr>,
    [])"
  using C5_unset_secret_config_error
    [of "payment_body (JStr ''0971234567'') (JStr ''50.00'')" "''0971234567''" "Finite 25 1"
        "verification_body (JStr ''T1'')" "deployment None ''production''"
        "json_provider 200 JNull"]
  by (simp add: scenario_eval parseFloat_def parse_fifty isNaN_def)

text \<open>
  C6. For a request to either operation that reaches the provider, when the content type
  of the provider's response is not JSON the operation returns the internal-error
  envelope \<^verbatim>\<open>{isError: true, message: 'Internal server error'}\<close> with HTTP 500; the body
  of the response is not passed on. Each operation is stated on its own request,
  deployment and provider.
\<close>

theorem C6_non_json_internal_error:
  "(map_of req_body ''from_payer'' = Some (JStr payer) \<and>
    ten_digits payer \<and>
    parseFloat (map_of req_body ''amount'') = Inr parsedAmount \<and>
    \<not> isNaN parsedAmount \<and>
    \<not> le_zero parsedAmount \<and>
    \<not> auth_id_missing env \<and>
    fetch (create_request payer parsedAmount (auth_id env)) = Resolves response \<and>
    \<not> is_json (content_type response) \<longrightarrow>
    create_mobile_money_payment env fetch req_body =
      (\<lparr>status = 500,
        sent = [(''isError'', Some (JBool True)),
                (''message'', Some (JStr ''Internal server error'')),
                (''error'', Some (JStr
                   (if NODE_ENV env = Some ''development'' then
                      (case text_result response of
                         Inl e \<Rightarrow> message e
                       | Inr text \<Rightarrow> ''Invalid response from payment provider'')
                    else ''An error occurred'')))]\<rparr>,
       [create_request payer parsedAmount (auth_id env)])) \<and>
   (truthy (map_of verify_body ''transaction_id'') \<and>
    ToString_value (map_of verify_body ''transaction_id'') = Inr tid \<and>
    \<not> auth_id_missing env' \<and>
    fetch' (verify_request (auth_id env') tid) = Resolves response' \<and>
    \<not> is_json (content_type response') \<longrightarrow>
    verify_mobile_money_payment env' fetch' verify_body =
      (\<lparr>status = 500,
        sent = [(''isError'', Some (JBool True)),
                (''message'', Some (JStr ''Internal server error'')),
                (''error'', Some (JStr
                   (if NODE_ENV env' = Some ''development'' then
                      (case text_result response' of
                         Inl e \<Rightarrow> message e
                       | Inr text \<Rightarrow> ''Invalid response from payment provider'')
                    else ''An error occurred'')))]\<rparr>,
       [verify_request (auth_id env') tid]))"
proof (intro conjI impI)
  assume create: "map_of req_body ''from_payer'' = Some (JStr payer) \<and>
    ten_digits payer \<and>
    parseFloat (map_of req_body ''amount'') = Inr parsedAmount \<and>
    \<not> isNaN parsedAmount \<and>
    \<not> le_zero parsedAmount \<and>
    \<not> auth_id_missing env \<and>
    fetch (create_request payer parsedAmount (auth_id env)) = Resolves response \<and>
    \<not> is_json (content_type response)"
  then have valid: "create_try env fetch req_body =
      (create_call fetch (create_request payer parsedAmount (auth_id env)),
       [create_request payer parsedAmount (auth_id env)])"
    using create_try_valid [of req_body payer parsedAmount env fetch] by simp
  have "create_call fetch (create_request payer parsedAmount (auth_id env)) =
          Inl (case text_result response of
                 Inl e \<Rightarrow> e
               | Inr text \<Rightarrow> Error ''Invalid response from payment provider'')"
    using create by (simp add: create_call_def read_body_def split: sum.splits)
  with valid show "create_mobile_money_payment env fetch req_body =
      (\<lparr>status = 500,
        sent = [(''isError'', Some (JBool True)),
                (''message'', Some (JStr ''Internal server error'')),
                (''error'', Some (JStr
                   (if NODE_ENV env = Some ''development'' then
                      (case text_result response of
                         Inl e \<Rightarrow> message e
                       | Inr text \<Rightarrow> ''Invalid response from payment provider'')
                    else ''An error occurred'')))]\<rparr>,
       [create_request payer parsedAmount (auth_id env)])"
    by (simp add: create_mobile_money_payment_def catch_block_def split: sum.splits)
next
  assume verify: "truthy (map_of verify_body ''transaction_id'') \<and>
    ToString_value (map_of verify_body ''transaction_id'') = Inr tid \<and>
    \<not> auth_id_missing env' \<and>
    fetch' (verify_request (auth_id env') tid) = Resolves response' \<and>
    \<not> is_json (content_type response')"
  then have present: "verify_try env' fetch' verify_body =
      (verify_call fetch' (verify_request (auth_id env') tid),
       [verify_request (auth_id env') tid])"
    using verify_try_present [of verify_body tid env' fetch'] by simp
  have "verify_call fetch' (verify_request (auth_id env') tid) =
          Inl (case text_result response' of
                 Inl e \<Rightarrow> e
               | Inr text \<Rightarrow> Error ''Invalid response from payment provider'')"
    using verify by (simp add: verify_call_def read_body_def split: sum.splits)
  with present show "verify_mobile_money_payment env' fetch' verify_body =
      (\<lparr>status = 500,
        sent = [(''isError'', Some (JBool True)),
                (''message'', Some (JStr ''Internal server error'')),
                (''error'', Some (JStr
                   (if NODE_ENV env' = Some ''development'' then
                      (case text_result response' of
                         Inl e \<Rightarrow> message e
                       | Inr text \<Rightarrow> ''Invalid response from payment provider'')
                    else ''An error occurred'')))]\<rparr>,
       [verify_request (auth_id env') tid])"
    by (simp add: verify_mobile_money_payment_def catch_block_def split: sum.splits)
qed

theorem C6_non_json_internal_error_witness:
  "create_mobile_money_payment (deployment (Some ''secret'') ''development'') html_provider
     (payment_body (JStr ''0971234567'') (JStr ''50.00'')) =
   (\<lparr>status = 500,
     sent = [(''isError'', Some (JBool True)),
             (''message'', Some (JStr ''Internal server error'')),
             (''error'', Some (JStr ''Invalid response from payment provider''))]\<rparr>,
    [create_request ''0971234567'' (Finite 25 1) ''secret'']) \<and>
   verify_mobile_money_payment (deployment (Some ''other'') ''production'') html_provider
     (verification_body (JStr ''T1'')) =
   (\<lparr>status = 500,
     sent = [(''isError'', Some (JBool True)),
             (''message'', Some (JStr ''Internal server error'')),
             (''error'', Some (JStr ''An error occurred''))]\<rparr>,
    [verify_request ''other'' ''T1''])"
  using C6_non_json_internal_error
    [where req_body = "payment_body (JStr ''0971234567'') (JStr ''50.00'')"
       and payer = "''0971234567''" and parsedAmount = "Finite 25 1"
       and env = "deployment (Some ''secret'') ''development''"
       and fetch = html_provider
       and response = "\<lparr>content_type = Some ''text/html'', http_status = 502,
          json_result = Inl (Rejected ''Unexpected token < in JSON at position 0''),
          text_result = Inr ''<html>Bad Gateway</html>''\<rparr>"
       and verify_body = "verification_body (JStr ''T1'')" and tid = "''T1''"
       and env' = "deployment (Some ''other'') ''production''"
       and fetch' = html_provider
       and response' = "\<lparr>content_type = Some ''text/html'', http_status = 502,
          json_result = Inl (Rejected ''Unexpected token < in JSON at position 0''),
          text_result = Inr ''<html>Bad Gateway</html>''\<rparr>"]
  by (simp add: scenario_eval parseFloat_def parse_fifty isNaN_def)

text \<open>
  C9. An internal error caught at the request boundary of either operation shows its
  message in the reply only when the environment flag is \<^verbatim>\<open>development\<close>; in every other
  environment the reply carries the fixed text \<^verbatim>\<open>An error occurred\<close>, so two runs that
  end in different exceptions get the same reply. Each operation is stated on its own
  runs: whatever the request, the provider and the configuration, a run of the handler
  body that ends in an exception is answered by the \<^verbatim>\<open>catch\<close> block.
\<close>

theorem C9_error_detail_only_in_development:
  "(create_try env fetch req_body = (Inl e, calls) \<longrightarrow>
      fst (create_mobile_money_payment env fetch req_body) =
        \<lparr>status = 500,
         sent = [(''isError'', Some (JBool True)),
                 (''message'', Some (JStr ''Internal server error'')),
                 (''error'', Some (JStr (if NODE_ENV env = Some ''development''
                                         then message e else ''An error occurred'')))]\<rparr>) \<and>
   (NODE_ENV env \<noteq> Some ''development'' \<and>
    create_try env fetch req_body = (Inl e, calls) \<and>
    create_try env other_fetch other_body = (Inl other_e, other_calls) \<longrightarrow>
      fst (create_mobile_money_payment env fetch req_body) =
        fst (create_mobile_money_payment env other_fetch other_body)) \<and>
   (verify_try env' fetch' verify_body = (Inl x, verify_calls) \<longrightarrow>
      fst (verify_mobile_money_payment env' fetch' verify_body) =
        \<lparr>status = 500,
         sent = [(''isError'', Some (JBool True)),
                 (''message'', Some (JStr ''Internal server error'')),
                 (''error'', Some (JStr (if NODE_ENV env' = Some ''development''
                                         then message x else ''An error occurred'')))]\<rparr>) \<and>
   (NODE_ENV env' \<noteq> Some ''development'' \<and>
    verify_try env' fetch' verify_body = (Inl x, verify_calls) \<and>
    verify_try env' other_fetch' other_verify_body = (Inl other_x, other_verify_calls) \<longrightarrow>
      fst (verify_mobile_money_payment env' fetch' verify_body) =
        fst (verify_mobile_money_payment env' other_fetch' other_verify_body))"
  by (simp add: create_mobile_money_payment_def verify_mobile_money_payment_def catch_block_def)

theorem C9_error_detail_only_in_development_witness:
  "fst (create_mobile_money_payment (deployment None ''production'')
          (unreachable_provider ''connect ECONNREFUSED'')
          (payment_body (JNum (Finite 971234567 0)) (JStr ''50.00''))) =
     \<lparr>status = 500,
      sent = [(''isError'', Some (JBool True)),
              (''message'', Some (JStr ''Internal server error'')),
              (''error'', Some (JStr ''An error occurred''))]\<rparr> \<and>
   fst (create_mobile_money_payment (deployment None ''production'')
          (unreachable_provider ''connect ECONNREFUSED'')
          (payment_body (JNum (Finite 971234567 0)) (JStr ''50.00''))) =
   fst (create_mobile_money_payment (deployment None ''production'')
          (unreachable_provider ''socket hang up'')
          (payment_body (JStr ''0971234567'') (JObj [(''toString'', JNull)]))) \<and>
   fst (verify_mobile_money_payment (deployment (Some ''secret'') ''production'')
          (unreachable_provider ''connect ECONNREFUSED'') (verification_body (JStr ''T1''))) =
     \<lparr>status = 500,
      sent = [(''isError'', Some (JBool True)),
              (''message'', Some (JStr ''Internal server error'')),
              (''error'', Some (JStr ''An error occurred''))]\<rparr> \<and>
   fst (verify_mobile_money_payment (deployment (Some ''secret'') ''production'')
          (unreachable_provider ''connect ECONNREFUSED'') (verification_body (JStr ''T1''))) =
   fst (verify_mobile_money_payment (deployment (Some ''secret'') ''production'')
          (unreachable_provider ''socket hang up'') (verification_body (JStr ''T2'')))"
  using C9_error_detail_only_in_development
    [where env = "deployment None ''production''"
       and fetch = "unreachable_provider ''connect ECONNREFUSED''"
       and req_body = "payment_body (JNum (Finite 971234567 0)) (JStr ''50.00'')"
       and e = "TypeError ''from_payer.substring is not a function''"
       and calls = "[]"
       and other_fetch = "unreachable_provider ''socket hang up''"
       and other_body = "payment_body (JStr ''0971234567'') (JObj [(''toString'', JNull)])"
       and other_e = "TypeError ''Cannot convert object to primitive value''"
       and other_calls = "[]"
       and env' = "deployment (Some ''secret'') ''production''"
       and fetch' = "unreachable_provider ''connect ECONNREFUSED''"
       and verify_body = "verification_body (JStr ''T1'')"
       and x = "Rejected ''connect ECONNREFUSED''"
       and verify_calls = "[verify_request ''secret'' ''T1'']"
       and other_fetch' = "unreachable_provider ''socket hang up''"
       and other_verify_body = "verification_body (JStr ''T2'')"
       and other_x = "Rejected ''socket hang up''"
       and other_verify_calls = "[verify_request ''secret'' ''T2'']"]
  by (simp add: scenario_eval create_try_def verify_try_def create_call_def verify_call_def
      parseFloat_def isNaN_def create_mobile_money_payment_def
      verify_mobile_money_payment_def catch_block_def)

text \<open>
  C1, as the specification states it: whenever the provider answers a verification with
  a JSON body, the relay returns \<^verbatim>\<open>{isError: false, message, data}\<close>. The JSON body
  \<^verbatim>\<open>null\<close> refutes it: reading \<^verbatim>\<open>data.data\<close> raises and the reply is the internal-error
  envelope.
\<close>

theorem C1_null_body_counterexample:
  "verify_mobile_money_payment (deployment (Some ''secret'') ''production'')
     (json_provider 200 JNull) (verification_body (JStr ''T1'')) =
   (\<lparr>status = 500,
     sent = [(''isError'', Some (JBool True)),
             (''message'', Some (JStr ''Internal server error'')),
             (''error'', Some (JStr ''An error occurred''))]\<rparr>,
    [verify_request ''secret'' ''T1''])"
  by (simp add: scenario_eval verify_mobile_money_payment_def verify_try_def verify_call_def
      read_body_def verify_translate_def logged_status_def catch_block_def)

text \<open>
  C1, amended. For a verification request with \<^verbatim>\<open>transaction_id\<close> present and the
  provider secret set, if the provider answers the call with a JSON body other than
  \<^verbatim>\<open>null\<close>, the relay returns HTTP 200 with \<^verbatim>\<open>{isError: false, message, data}\<close>, the
  provider's message and data passed through, whatever status or error indication the
  provider's response carries.
\<close>

theorem C1_verify_passthrough:
  assumes "truthy (map_of req_body ''transaction_id'')"
    and "ToString_value (map_of req_body ''transaction_id'') = Inr tid"
    and "\<not> auth_id_missing env"
    and "fetch (verify_request (auth_id env) tid) = Resolves response"
    and "is_json (content_type response)"
    and "json_result response = Inr data"
    and "data \<noteq> JNull"
  shows "verify_mobile_money_payment env fetch req_body =
           (\<lparr>status = 200,
             sent = [(''isError'', Some (JBool False)),
                     (''message'', get_optional (Some data) ''message''),
                     (''data'', get_optional (Some data) ''data'')]\<rparr>,
            [verify_request (auth_id env) tid])"
proof -
  have "verify_translate data =
          Inr (success (get_optional (Some data) ''message'') (get_optional (Some data) ''data''))"
    using assms(7) by (simp add: verify_translate_def logged_status_def get_property_not_null)
  then have "verify_call fetch (verify_request (auth_id env) tid) =
          Inr (success (get_optional (Some data) ''message'') (get_optional (Some data) ''data''))"
    using assms(4-6) by (simp add: verify_call_def read_body_def)
  then show ?thesis
    using assms(3) verify_try_present [OF assms(1,2), of env fetch]
    by (simp add: verify_mobile_money_payment_def success_def)
qed

theorem C1_verify_passthrough_witness:
  "verify_mobile_money_payment (deployment (Some ''secret'') ''production'')
     (json_provider 500
        (JObj [(''isError'', JBool True), (''message'', JStr ''pending''),
               (''data'', JObj [(''status'', JStr ''completed'')])]))
     (verification_body (JStr ''T1'')) =
   (\<lparr>status = 200,
     sent = [(''isError'', Some (JBool False)),
             (''message'', Some (JStr ''pending'')),
             (''data'', Some (JObj [(''status'', JStr ''completed'')]))]\<rparr>,
    [verify_request ''secret'' ''T1''])"
  using C1_verify_passthrough
    [of "verification_body (JStr ''T1'')" "''T1''" "deployment (Some ''secret'') ''production''"
        "json_provider 500
           (JObj [(''isError'', JBool True), (''message'', JStr ''pending''),
                  (''data'', JObj [(''status'', JStr ''completed'')])])"
        "\<lparr>content_type = Some ''application/json; charset=utf-8'', http_status = 500,
          json_result = Inr (JObj [(''isError'', JBool True), (''message'', JStr ''pending''),
                                   (''data'', JObj [(''status'', JStr ''completed'')])]),
          text_result = Inr []\<rparr>"
        "JObj [(''isError'', JBool True), (''message'', JStr ''pending''),
               (''data'', JObj [(''status'', JStr ''completed'')])]"]
  by (simp add: scenario_eval)

text \<open>
  C3, as the specification states it: the amount is forwarded as a string with fixed
  precision. The amount \<^verbatim>\<open>50.00\<close> is forwarded as \<^verbatim>\<open>50\<close>, with no decimals, and the
  amount \<^verbatim>\<open>0.5\<close> as \<^verbatim>\<open>0.5\<close>, with one: the handler calls \<^verbatim>\<open>toString()\<close> on the
  parsed number, not \<^verbatim>\<open>toFixed\<close>.
\<close>

theorem C3_fixed_precision_counterexample:
  "snd (create_mobile_money_payment (deployment (Some ''secret'') ''production'')
          (json_provider 200 JNull) (payment_body (JStr ''0971234567'') (JStr ''50.00''))) =
     [\<lparr>url = ''https://api.moneyunify.one/payments/request'',
       http_method = ''POST'',
       headers = [(''Content-Type'', ''application/x-www-form-urlencoded''),
                  (''Accept'', ''application/json'')],
       payload = ''from_payer=0971234567&amount=50&auth_id=secret&webhook_url=''\<rparr>] \<and>
   snd (create_mobile_money_payment (deployment (Some ''secret'') ''production'')
          (json_provider 200 JNull) (payment_body (JStr ''0971234567'') (JStr ''0.5''))) =
     [\<lparr>url = ''https://api.moneyunify.one/payments/request'',
       http_method = ''POST'',
       headers = [(''Content-Type'', ''application/x-www-form-urlencoded''),
                  (''Accept'', ''application/json'')],
       payload = ''from_payer=0971234567&amount=0.5&auth_id=secret&webhook_url=''\<rparr>]"
  by (simp add: scenario_eval create_mobile_money_payment_def create_try_def create_call_def
      read_body_def create_translate_def parseFloat_def parse_fifty parse_half isNaN_def
      form_eval show_fifty show_half)

text \<open>
  C3, amended. For every valid payment request the relay sends one request whose form
  payload holds \<^verbatim>\<open>from_payer\<close>, the amount as \<^verbatim>\<open>Number.prototype.toString\<close> prints the
  parsed number (the shortest decimal string that reads back as that number, with no
  fixed number of decimals), \<^verbatim>\<open>auth_id\<close> and an empty \<^verbatim>\<open>webhook_url\<close>.
\<close>

theorem C3_form_payload:
  assumes "map_of req_body ''from_payer'' = Some (JStr payer)"
    and "ten_digits payer"
    and "parseFloat (map_of req_body ''amount'') = Inr parsedAmount"
    and "\<not> isNaN parsedAmount"
    and "\<not> le_zero parsedAmount"
    and "\<not> auth_id_missing env"
  shows "snd (create_mobile_money_payment env fetch req_body) =
           [\<lparr>url = MONEYUNIFY_API_URL @ ''/payments/request'',
             http_method = ''POST'',
             headers = form_headers,
             payload = serialize [(''from_payer'', payer),
                                  (''amount'', number_toString parsedAmount),
                                  (''auth_id'', auth_id env),
                                  (''webhook_url'', [])]\<rparr>]"
proof -
  have "snd (create_try env fetch req_body) = [create_request payer parsedAmount (auth_id env)]"
    using assms(6) create_try_valid [OF assms(1-5), of env fetch] by simp
  moreover have "snd (respond env r) = snd r" for r
    by (cases r, cases "fst r") simp_all
  ultimately show ?thesis
    by (simp add: create_mobile_money_payment_def create_request_def create_formData_def)
qed

theorem C3_form_payload_witness:
  "snd (create_mobile_money_payment (deployment (Some ''secret'') ''production'')
          (unreachable_provider ''connect ECONNREFUSED'')
          (payment_body (JStr ''0971234567'') (JStr ''50.00''))) =
     [\<lparr>url = ''https://api.moneyunify.one/payments/request'',
       http_method = ''POST'',
       headers = [(''Content-Type'', ''application/x-www-form-urlencoded''),
                  (''Accept'', ''application/json'')],
       payload = ''from_payer=0971234567&amount=50&auth_id=secret&webhook_url=''\<rparr>]"
  using C3_form_payload
    [of "payment_body (JStr ''0971234567'') (JStr ''50.00'')" "''0971234567''" "Finite 25 1"
        "deployment (Some ''secret'') ''production''"
        "unreachable_provider ''connect ECONNREFUSED''"]
  by (simp add: scenario_eval parseFloat_def parse_fifty isNaN_def form_eval show_fifty)

text \<open>
  C4, as the specification states it: whenever the provider's JSON response carries an
  error flag or a status that is not a success, the relay answers HTTP 400 with the
  provider's message. A response with status 500 and the JSON body \<^verbatim>\<open>null\<close> refutes it:
  reading \<^verbatim>\<open>data.isError\<close> raises and the reply is the internal-error envelope with
  HTTP 500.
\<close>

theorem C4_null_body_counterexample:
  "create_mobile_money_payment (deployment (Some ''secret'') ''production'')
     (json_provider 500 JNull) (payment_body (JStr ''0971234567'') (JStr ''50.00'')) =
   (\<lparr>status = 500,
     sent = [(''isError'', Some (JBool True)),
             (''message'', Some (JStr ''Internal server error'')),
             (''error'', Some (JStr ''An error occurred''))]\<rparr>,
    [create_request ''0971234567'' (Finite 25 1) ''secret''])"
  by (simp add: scenario_eval create_mobile_money_payment_def create_try_def create_call_def
      read_body_def create_translate_def parseFloat_def parse_fifty isNaN_def catch_block_def)

text \<open>
  C4, amended. For a payment request that reaches the provider and gets a JSON response
  whose body is not \<^verbatim>\<open>null\<close>, if the body carries a truthy \<^verbatim>\<open>isError\<close> or the HTTP
  status is not a success status, the relay returns HTTP 400 with
  \<^verbatim>\<open>{isError: true, message}\<close>, the message being the provider's, or
  \<^verbatim>\<open>Payment initiation failed\<close> when the provider's message is absent or falsy.
\<close>

theorem C4_provider_error:
  assumes "map_of req_body ''from_payer'' = Some (JStr payer)"
    and "ten_digits payer"
    and "parseFloat (map_of req_body ''amount'') = Inr parsedAmount"
    and "\<not> isNaN parsedAmount"
    and "\<not> le_zero parsedAmount"
    and "\<not> auth_id_missing env"
    and "fetch (create_request payer parsedAmount (auth_id env)) = Resolves response"
    and "is_json (content_type response)"
    and "json_result response = Inr data"
    and "data \<noteq> JNull"
    and "truthy (get_optional (Some data) ''isError'') \<or> \<not> response_ok response"
  shows "create_mobile_money_payment env fetch req_body =
           (\<lparr>status = 400,
             sent = [(''isError'', Some (JBool True)),
                     (''message'',
                        if truthy (get_optional (Some data) ''message'')
                        then get_optional (Some data) ''message''
                        else Some (JStr ''Payment initiation failed''))]\<rparr>,
            [create_request payer parsedAmount (auth_id env)])"
proof -
  have "create_translate response data =
          Inr \<lparr>status = 400,
               sent = [(''isError'', Some (JBool True)),
                       (''message'',
                          if truthy (get_optional (Some data) ''message'')
                          then get_optional (Some data) ''message''
                          else Some (JStr ''Payment initiation failed''))]\<rparr>"
    using assms(10,11) by (auto simp: create_translate_def get_property_not_null)
  then have "create_call fetch (create_request payer parsedAmount (auth_id env)) =
          Inr \<lparr>status = 400,
               sent = [(''isError'', Some (JBool True)),
                       (''message'',
                          if truthy (get_optional (Some data) ''message'')
                          then get_optional (Some data) ''message''
                          else Some (JStr ''Payment initiation failed''))]\<rparr>"
    using assms(7-9) by (simp add: create_call_def read_body_def)
  then show ?thesis
    using assms(6) create_try_valid [OF assms(1-5), of env fetch]
    by (simp add: create_mobile_money_payment_def)
qed

theorem C4_provider_error_witness:
  "create_mobile_money_payment (deployment (Some ''secret'') ''production'')
     (json_provider 200 (JObj [(''isError'', JBool True), (''message'', JStr ''X'')]))
     (payment_body (JStr ''0971234567'') (JStr ''50.00'')) =
   (\<lparr>status = 400,
     sent = [(''isError'', Some (JBool True)), (''message'', Some (JStr ''X''))]\<rparr>,
    [create_request ''0971234567'' (Finite 25 1) ''secret''])"
  using C4_provider_error
    [of "payment_body (JStr ''0971234567'') (JStr ''50.00'')" "''0971234567''" "Finite 25 1"
        "deployment (Some ''secret'') ''production''"
        "json_provider 200 (JObj [(''isError'', JBool True), (''message'', JStr ''X'')])"
        "\<lparr>content_type = Some ''application/json; charset=utf-8'', http_status = 200,
          json_result = Inr (JObj [(''isError'', JBool True), (''message'', JStr ''X'')]),
          text_result = Inr []\<rparr>"
        "JObj [(''isError'', JBool True), (''message'', JStr ''X'')]"]
  by (simp add: scenario_eval parseFloat_def parse_fifty isNaN_def)

subsection \<open>Validation of a payer given as a string\<close>

text \<open>
  When \<^verbatim>\<open>from_payer\<close> is a string, the validation does what its comments and messages
  say: a string that is not ten digits, and an amount that is not a positive number, are
  answered with HTTP 400 and nothing is sent to the provider.
\<close>

lemma create_rejects_bad_phone_string:
  assumes "map_of req_body ''from_payer'' = Some (JStr s)"
    and "s \<noteq> []"
    and "\<not> ten_digits s"
  shows "create_mobile_money_payment env fetch req_body =
           (failure 400
              (if truthy (map_of req_body ''amount'')
               then ''Invalid phone number format. Must be 10 digits (e.g., 0971234567)''
               else ''Missing required fields: from_payer or amount''),
            [])"
  using assms by (simp add: create_mobile_money_payment_def create_try_def)

lemma create_rejects_bad_amount_string:
  assumes "map_of req_body ''from_payer'' = Some (JStr s)"
    and "s \<noteq> []"
    and "parseFloat (map_of req_body ''amount'') = Inr n"
    and "isNaN n \<or> le_zero n"
  shows "create_mobile_money_payment env fetch req_body =
           (failure 400
              (if \<not> truthy (map_of req_body ''amount'')
               then ''Missing required fields: from_payer or amount''
               else if \<not> ten_digits s
               then ''Invalid phone number format. Must be 10 digits (e.g., 0971234567)''
               else ''Invalid amount. Must be a positive number.''),
            [])"
  using assms by (simp add: create_mobile_money_payment_def create_try_def Let_def)

text \<open>
  Whatever \<^verbatim>\<open>from_payer\<close> is, the provider is called only when it is a string of ten
  digits.
\<close>

lemma respond_calls: "snd (respond env r) = snd r"
  by (cases r, cases "fst r") simp_all

lemma create_calls_only_for_ten_digit_string:
  assumes "snd (create_mobile_money_payment env fetch req_body) \<noteq> []"
  shows "\<exists>payer. map_of req_body ''from_payer'' = Some (JStr payer) \<and> ten_digits payer"
proof (cases "map_of req_body ''from_payer''")
  case None
  with assms show ?thesis
    by (simp add: create_mobile_money_payment_def respond_calls create_try_def)
next
  case (Some v)
  show ?thesis
  proof (cases v)
    case (JStr s)
    with Some assms show ?thesis
      by (auto simp: create_mobile_money_payment_def respond_calls create_try_def Let_def
          split: if_splits sum.splits)
  qed (use Some assms in \<open>auto simp: create_mobile_money_payment_def respond_calls
         create_try_def Let_def split: if_splits\<close>)
qed

lemma create_rejects_negative_and_non_numeric:
  "create_mobile_money_payment env fetch (payment_body (JStr ''0971234567'') (JStr ''-5'')) =
     (failure 400 ''Invalid amount. Must be a positive number.'', []) \<and>
   create_mobile_money_payment env fetch (payment_body (JStr ''0971234567'') (JStr ''abc'')) =
     (failure 400 ''Invalid amount. Must be a positive number.'', [])"
  using
    create_rejects_bad_amount_string
      [of "payment_body (JStr ''0971234567'') (JStr ''-5'')" "''0971234567''"
          "Finite (- 5) 0" env fetch]
    create_rejects_bad_amount_string
      [of "payment_body (JStr ''0971234567'') (JStr ''abc'')" "''0971234567''" NaN env fetch]
  by (simp add: payment_body_def parseFloat_def parse_minus_five parse_abc isNaN_def
      ten_digits_def is_digit_def)

text \<open>
  C2. A payment request whose \<^verbatim>\<open>from_payer\<close> is present but is not ten ASCII digits is
  to be answered with the validation envelope and HTTP 400, with no call to the provider.
  The handler does so for a string, but a \<^verbatim>\<open>from_payer\<close> that is a JSON number reaches
  the log statement first: \<^verbatim>\<open>from_payer.substring\<close> is not a function, the exception is
  caught, and the reply is HTTP 500 with the internal-error envelope.
\<close>

theorem C2_numeric_payer_internal_error:
  "create_mobile_money_payment env fetch
     (payment_body (JNum (Finite 971234567 0)) (JStr ''50.00'')) =
   (\<lparr>status = 500,
     sent = [(''isError'', Some (JBool True)),
             (''message'', Some (JStr ''Internal server error'')),
             (''error'', Some (JStr (if NODE_ENV env = Some ''development''
                                     then ''from_payer.substring is not a function''
                                     else ''An error occurred'')))]\<rparr>,
    [])"
  by (simp add: payment_body_def create_mobile_money_payment_def create_try_def
      catch_block_def isNaN_def)

text \<open>
  C8. A payment request with \<^verbatim>\<open>from_payer\<close> and \<^verbatim>\<open>amount\<close> present whose amount does
  not parse as a number, or parses to a value that is not positive, is to be answered with
  the validation envelope and HTTP 400. The handler does so when \<^verbatim>\<open>from_payer\<close> is a
  string and the amount converts to a string. With a numeric \<^verbatim>\<open>from_payer\<close> the log
  statement raises before any validation, and with an amount object that has an own
  \<^verbatim>\<open>toString\<close> property \<^verbatim>\<open>parseFloat\<close> raises; both are answered with HTTP 500.
\<close>

theorem C8_bad_amount_internal_error:
  "create_mobile_money_payment env fetch
     (payment_body (JNum (Finite 971234567 0)) (JNum (Finite (- 5) 0))) =
   (\<lparr>status = 500,
     sent = [(''isError'', Some (JBool True)),
             (''message'', Some (JStr ''Internal server error'')),
             (''error'', Some (JStr (if NODE_ENV env = Some ''development''
                                     then ''from_payer.substring is not a function''
                                     else ''An error occurred'')))]\<rparr>,
    []) \<and>
   create_mobile_money_payment env fetch
     (payment_body (JStr ''0971234567'') (JObj [(''toString'', JNum (Finite 1 0))])) =
   (\<lparr>status = 500,
     sent = [(''isError'', Some (JBool True)),
             (''message'', Some (JStr ''Internal server error'')),
             (''error'', Some (JStr (if NODE_ENV env = Some ''development''
                                     then ''Cannot convert object to primitive value''
                                     else ''An error occurred'')))]\<rparr>,
    [])"
  by (simp add: payment_body_def create_mobile_money_payment_def create_try_def
      catch_block_def isNaN_def ten_digits_def is_digit_def parseFloat_def)

end
